theory Spec2Isabelle
  imports Complex_Main "HOL-Library.Char_ord" "HOL-Library.List_Lexorder" "HOL-Library.Log_Nat"
begin

section \<open>The timed question-response collector (UserQuestionEntry)\<close>

text \<open>
  The component lives in \<^verbatim>\<open>src/unnamed/part_001\<close>. It consists of the hook
  \<^verbatim>\<open>useQuestionCountdown\<close>, the per-question form \<^verbatim>\<open>QuestionForm\<close> with its three
  handlers, and the top-level \<^verbatim>\<open>UserQuestionEntry\<close> holding the React state and
  \<^verbatim>\<open>handleSubmit\<close>.

  Conventions of the embedding:
  \<^item> a JavaScript string is a \<open>string\<close>; one \<open>char\<close> stands for one code unit below 256;
  \<^item> an option index is a \<open>nat\<close> (the indices handed to the handlers are array positions);
  \<^item> \<^verbatim>\<open>custom_text\<close> is a \<open>string option\<close>: \<open>None\<close> is \<^verbatim>\<open>undefined\<close>. The source calls
    \<^verbatim>\<open>answer.custom_text.trim()\<close> after testing only \<^verbatim>\<open>!== undefined\<close>, so the field's
    type is \<^verbatim>\<open>string | undefined\<close> and \<^verbatim>\<open>null\<close> is not a value of it;
  \<^item> a timestamp is the \<open>int\<close> that \<^verbatim>\<open>new Date(x).getTime()\<close> yields for a valid date
    (milliseconds); the difference of two timestamps and the \<^verbatim>\<open>Math.floor\<close> of its
    quotient by 1000 are taken exactly.
\<close>

subsection \<open>Data\<close>

record question_option =
  label :: string
  description :: "string option"

record user_question =
  question :: string
  header :: "string option"
  options :: "question_option list"
  multiSelect :: bool

record question_answer =
  question_index :: nat
  selected_options :: "nat list"
  custom_text :: "string option"

subsection \<open>\<^verbatim>\<open>Array.prototype.sort()\<close> without a comparator\<close>

text \<open>
  \<^verbatim>\<open>[...].sort()\<close> with no compare function orders the elements by their string
  conversions, compared code unit by code unit, and is stable. For a non-negative integer
  the conversion is its decimal numeral without leading zeros.
\<close>

definition digitChar :: "nat \<Rightarrow> char" where
  "digitChar d = char_of (48 + d)"

fun numberToString :: "nat \<Rightarrow> string" where
  "numberToString n =
     (if n < 10 then [digitChar n]
      else numberToString (n div 10) @ [digitChar (n mod 10)])"

declare numberToString.simps [simp del]

definition defaultSort :: "nat list \<Rightarrow> nat list" where
  "defaultSort xs = sort_key numberToString xs"

subsection \<open>QuestionForm: the answer builder\<close>

text \<open>
  Each handler calls \<^verbatim>\<open>onAnswerChange(questionIndex, newAnswer)\<close> exactly once; the
  functions below return that \<^verbatim>\<open>newAnswer\<close>.
\<close>

definition hasOtherSelected :: "question_answer \<Rightarrow> bool" where
  "hasOtherSelected answer = (custom_text answer \<noteq> None)"

definition handleOptionChange ::
  "user_question \<Rightarrow> question_answer \<Rightarrow> nat \<Rightarrow> bool \<Rightarrow> question_answer" where
  "handleOptionChange q answer optionIndex checked =
     (if multiSelect q then
        answer\<lparr>selected_options :=
          (if checked then defaultSort (selected_options answer @ [optionIndex])
           else filter (\<lambda>i. i \<noteq> optionIndex) (selected_options answer))\<rparr>
      else if checked \<and> hasOtherSelected answer then
        answer\<lparr>selected_options := [optionIndex], custom_text := None\<rparr>
      else
        answer\<lparr>selected_options := (if checked then [optionIndex] else [])\<rparr>)"

definition handleOtherToggle ::
  "user_question \<Rightarrow> question_answer \<Rightarrow> bool \<Rightarrow> question_answer" where
  "handleOtherToggle q answer checked =
     (if checked then
        answer\<lparr>selected_options := (if multiSelect q then selected_options answer else []),
               custom_text := Some ''''\<rparr>
      else
        answer\<lparr>custom_text := None\<rparr>)"

definition handleCustomTextChange :: "question_answer \<Rightarrow> string \<Rightarrow> question_answer" where
  "handleCustomTextChange answer text = answer\<lparr>custom_text := Some text\<rparr>"

text \<open>
  The text field of "Other" is part of the rendered form only under
  \<^verbatim>\<open>{hasOtherSelected && (<Input ... onChange=... />)}\<close>, in both the checkbox and the
  radio variant.
\<close>

definition otherInputRendered :: "question_answer \<Rightarrow> bool" where
  "otherInputRendered answer = hasOtherSelected answer"

subsection \<open>useQuestionCountdown\<close>

text \<open>
  A Number is an IEEE 754 double. \<open>toDouble\<close> rounds a rational to the nearest double,
  a tie going to the even significand: with \<open>e\<close> the binary exponent of \<open>\<bar>x\<bar>\<close>, the doubles
  around \<open>x\<close> are the multiples of \<open>2 ^ (e - 52)\<close>. The exponent range is not bounded
  (no overflow, no subnormals); the quotients and products of the countdown are far inside
  the normal range. The division and the multiplication of the percent each return the
  exact result rounded in this way.
\<close>

definition roundHalfEven :: "rat \<Rightarrow> int" where
  "roundHalfEven q =
     (let f = \<lfloor>q\<rfloor>; d = q - of_int f
      in if d < 1 / 2 then f
         else if 1 / 2 < d then f + 1
         else if even f then f else f + 1)"

definition binaryExponent :: "rat \<Rightarrow> int" where
  "binaryExponent x =
     (case quotient_of x of (n, d) \<Rightarrow>
        let k = bitlen n - bitlen d
        in if power_int 2 k \<le> x then k else k - 1)"

definition toDouble :: "rat \<Rightarrow> rat" where
  "toDouble x =
     (if x = 0 then 0
      else let ulp = power_int 2 (binaryExponent \<bar>x\<bar> - 52)
           in sgn x * of_int (roundHalfEven (\<bar>x\<bar> / ulp)) * ulp)"

text \<open>
  \<^verbatim>\<open>Math.round\<close> returns the integer nearest to its argument, a tie going up; it is
  exact on the double it is given.
\<close>

definition Math_round :: "rat \<Rightarrow> int" where
  "Math_round x = \<lfloor>x + 1 / 2\<rfloor>"


text \<open>
  The initialiser of \<^verbatim>\<open>timeLeft\<close> and the interval callback compute the same value
  from \<^verbatim>\<open>Date.now()\<close>.
\<close>

definition remainingSeconds :: "int \<Rightarrow> int \<Rightarrow> int" where
  "remainingSeconds timeoutAt now =
     (let remaining = timeoutAt - now in max 0 \<lfloor>real_of_int remaining / 1000\<rfloor>)"

text \<open>
  \<^verbatim>\<open>Math.round((timeLeft / totalSeconds) * 100)\<close>, clamped: a division and a
  multiplication of doubles. The hook calls it with \<open>totalSeconds \<ge> 1\<close>.
\<close>

definition percent :: "int \<Rightarrow> int \<Rightarrow> int" where
  "percent timeLeft totalSecs =
     max 0 (min 100
       (Math_round (toDouble (toDouble (of_int timeLeft / of_int totalSecs) * 100))))"

subsection \<open>UserQuestionEntry: state, effects and handlers\<close>

record pending_status =
  questions :: "user_question list"
  question_id :: string
  requested_at :: int
  timeout_at :: int

record props =
  pendingStatus :: pending_status
  executionProcessId :: "string option"

text \<open>
  The React state of the component. \<open>intervalActive\<close> is not a variable of the source: it
  records whether the interval created by the countdown's \<^verbatim>\<open>useEffect\<close> is still
  installed (it is cleared by the callback at zero and by the effect's cleanup once
  \<^verbatim>\<open>paused\<close>, that is \<^verbatim>\<open>hasResponded\<close>, turns true).
\<close>

record collector_state =
  isResponding :: bool
  hasResponded :: bool
  error :: "string option"
  answers :: "question_answer list"
  timeLeft :: int
  intervalActive :: bool

record user_question_response =
  execution_process_id :: string
  response_answers :: "question_answer list"

text \<open>
  What the rejected promise carries into \<^verbatim>\<open>catch (e: unknown)\<close>: the handler only
  distinguishes \<^verbatim>\<open>e instanceof Error\<close>, reading \<^verbatim>\<open>e.message\<close>, from any other value.
\<close>

datatype thrown = ErrorInstance string | NonError

text \<open>
  The outbound effects of the front-end components under \<^verbatim>\<open>src/\<close>:
  \<^verbatim>\<open>userQuestionsApi.respond(question_id, response)\<close> and \<^verbatim>\<open>console.error\<close> in this
  component, and \<^verbatim>\<open>queryClient.invalidateQueries({ queryKey })\<close>, which only
  \<^verbatim>\<open>NotionImportDialog.tsx\<close> issues (after a successful import).
\<close>

datatype effect =
    Respond string user_question_response
  | ConsoleError string thrown
  | InvalidateQueries "string list"

fun isRespond :: "effect \<Rightarrow> bool" where
  "isRespond (Respond qid r) = True"
| "isRespond e = False"

fun isInvalidation :: "effect \<Rightarrow> bool" where
  "isInvalidation (InvalidateQueries k) = True"
| "isInvalidation e = False"

text \<open>\<^verbatim>\<open>String.prototype.trim\<close> strips white space and line terminators at both ends.\<close>

definition isWhiteSpace :: "char \<Rightarrow> bool" where
  "isWhiteSpace c = (of_char c \<in> {9, 10, 11, 12, 13, 32, 160 :: nat})"

definition trim :: "string \<Rightarrow> string" where
  "trim s = rev (dropWhile isWhiteSpace (rev (dropWhile isWhiteSpace s)))"

definition initialAnswers :: "pending_status \<Rightarrow> question_answer list" where
  "initialAnswers ps =
     map (\<lambda>index. \<lparr>question_index = index, selected_options = [], custom_text = None\<rparr>)
       [0 ..< length (questions ps)]"

definition initialState :: "props \<Rightarrow> int \<Rightarrow> collector_state" where
  "initialState p now =
     \<lparr>isResponding = False, hasResponded = False, error = None,
      answers = initialAnswers (pendingStatus p),
      timeLeft = remainingSeconds (timeout_at (pendingStatus p)) now,
      intervalActive = True\<rparr>"

definition disabled :: "collector_state \<Rightarrow> bool" where
  "disabled s = (isResponding s \<or> hasResponded s \<or> timeLeft s \<le> 0)"

definition answered :: "question_answer \<Rightarrow> bool" where
  "answered answer =
     (let hasSelection = (length (selected_options answer) > 0);
          hasCustomText = (case custom_text answer of
                             None \<Rightarrow> False
                           | Some t \<Rightarrow> trim t \<noteq> [])
      in hasSelection \<or> hasCustomText)"

definition allQuestionsAnswered :: "question_answer list \<Rightarrow> bool" where
  "allQuestionsAnswered as = list_all answered as"

text \<open>
  \<^verbatim>\<open>next[questionIndex] = answer\<close> on a copy of the array. A form exists for each
  position of \<^verbatim>\<open>pendingStatus.questions\<close> only, and \<^verbatim>\<open>answers\<close> has that length, so
  the index is in range whenever the callback runs.
\<close>

definition handleAnswerChange ::
  "question_answer list \<Rightarrow> nat \<Rightarrow> question_answer \<Rightarrow> question_answer list" where
  "handleAnswerChange prev questionIndex answer = prev[questionIndex := answer]"

text \<open>
  \<^verbatim>\<open>handleSubmit\<close> is asynchronous. \<open>handleSubmit\<close> is its synchronous part, up to the
  \<^verbatim>\<open>await\<close>; \<open>handleSubmit_resolved\<close> and \<open>handleSubmit_rejected\<close> are what runs when
  the promise settles (the \<^verbatim>\<open>try\<close> or the \<^verbatim>\<open>catch\<close> branch, then \<^verbatim>\<open>finally\<close>).
  \<^verbatim>\<open>!executionProcessId\<close> holds for \<^verbatim>\<open>undefined\<close> and for the empty string.
\<close>

definition handleSubmit :: "props \<Rightarrow> collector_state \<Rightarrow> collector_state \<times> effect list" where
  "handleSubmit p s =
     (if disabled s \<or> \<not> allQuestionsAnswered (answers s) then (s, [])
      else case executionProcessId p of
        None \<Rightarrow> (s\<lparr>error := Some ''Missing executionProcessId''\<rparr>, [])
      | Some pid \<Rightarrow>
          if pid = [] then (s\<lparr>error := Some ''Missing executionProcessId''\<rparr>, [])
          else (s\<lparr>isResponding := True, error := None\<rparr>,
                [Respond (question_id (pendingStatus p))
                   \<lparr>execution_process_id = pid, response_answers = answers s\<rparr>]))"

definition handleSubmit_resolved :: "collector_state \<Rightarrow> collector_state \<times> effect list" where
  "handleSubmit_resolved s = (s\<lparr>hasResponded := True, isResponding := False\<rparr>, [])"

definition handleSubmit_rejected ::
  "collector_state \<Rightarrow> thrown \<Rightarrow> collector_state \<times> effect list" where
  "handleSubmit_rejected s e =
     (let errorMessage = (case e of ErrorInstance message \<Rightarrow> message
                                  | NonError \<Rightarrow> ''Failed to send response'')
      in (s\<lparr>error := Some errorMessage, isResponding := False\<rparr>,
          [ConsoleError ''Question respond failed:'' e]))"

definition intervalCallback :: "props \<Rightarrow> collector_state \<Rightarrow> int \<Rightarrow> collector_state" where
  "intervalCallback p s now =
     (let next = remainingSeconds (timeout_at (pendingStatus p)) now
      in s\<lparr>timeLeft := next, intervalActive := (0 < next)\<rparr>)"

text \<open>The countdown's effect after a render: once paused, no interval is installed.\<close>

definition countdownEffect :: "collector_state \<Rightarrow> collector_state" where
  "countdownEffect s = s\<lparr>intervalActive := (intervalActive s \<and> \<not> hasResponded s)\<rparr>"

subsection \<open>Events\<close>

text \<open>
  The events that reach the component: a change of a form control of question \<open>q\<close>, a
  firing of the interval with the current time, a trigger of submit, and the settling of
  the respond promise.
\<close>

datatype event =
    OptionChange nat nat bool
  | OtherToggle nat bool
  | CustomTextChange nat string
  | Tick int
  | SubmitClick
  | RespondResolved
  | RespondRejected thrown

text \<open>
  \<open>offered\<close> says which events the rendered component can receive. A form exists for
  each question; its controls carry \<^verbatim>\<open>disabled={disabled}\<close>; the radio group only ever
  reports a selection (\<^verbatim>\<open>handleOptionChange(optionIndex, true)\<close>,
  \<^verbatim>\<open>handleOtherToggle(true)\<close>); the text field exists only while "Other" is selected.
  Submit is taken as always triggerable, so that the guard inside \<^verbatim>\<open>handleSubmit\<close>
  decides. The promise settles only while a call is in flight.
\<close>

fun offered :: "props \<Rightarrow> collector_state \<Rightarrow> event \<Rightarrow> bool" where
  "offered p s (OptionChange q optionIndex checked) =
     (q < length (questions (pendingStatus p)) \<and> q < length (answers s) \<and> \<not> disabled s \<and>
      optionIndex < length (options (questions (pendingStatus p) ! q)) \<and>
      (multiSelect (questions (pendingStatus p) ! q) \<or> checked))"
| "offered p s (OtherToggle q checked) =
     (q < length (questions (pendingStatus p)) \<and> q < length (answers s) \<and> \<not> disabled s \<and>
      (multiSelect (questions (pendingStatus p) ! q) \<or> checked))"
| "offered p s (CustomTextChange q text) =
     (q < length (questions (pendingStatus p)) \<and> q < length (answers s) \<and> \<not> disabled s \<and>
      otherInputRendered (answers s ! q))"
| "offered p s (Tick now) = intervalActive s"
| "offered p s SubmitClick = True"
| "offered p s RespondResolved = isResponding s"
| "offered p s (RespondRejected e) = isResponding s"

fun dispatch :: "props \<Rightarrow> collector_state \<Rightarrow> event \<Rightarrow> collector_state \<times> effect list" where
  "dispatch p s (OptionChange q optionIndex checked) =
     (s\<lparr>answers := handleAnswerChange (answers s) q
          (handleOptionChange (questions (pendingStatus p) ! q) (answers s ! q)
             optionIndex checked)\<rparr>, [])"
| "dispatch p s (OtherToggle q checked) =
     (s\<lparr>answers := handleAnswerChange (answers s) q
          (handleOtherToggle (questions (pendingStatus p) ! q) (answers s ! q) checked)\<rparr>, [])"
| "dispatch p s (CustomTextChange q text) =
     (s\<lparr>answers := handleAnswerChange (answers s) q
          (handleCustomTextChange (answers s ! q) text)\<rparr>, [])"
| "dispatch p s (Tick now) = (intervalCallback p s now, [])"
| "dispatch p s SubmitClick = handleSubmit p s"
| "dispatch p s RespondResolved =
     (case handleSubmit_resolved s of (s', fx) \<Rightarrow> (countdownEffect s', fx))"
| "dispatch p s (RespondRejected e) = handleSubmit_rejected s e"

definition step :: "props \<Rightarrow> collector_state \<Rightarrow> event \<Rightarrow> collector_state \<times> effect list" where
  "step p s ev = (if offered p s ev then dispatch p s ev else (s, []))"

fun run :: "props \<Rightarrow> collector_state \<Rightarrow> event list \<Rightarrow> collector_state \<times> effect list" where
  "run p s [] = (s, [])"
| "run p s (ev # evs) =
     (case step p s ev of (s', fx) \<Rightarrow>
        (case run p s' evs of (s'', fx') \<Rightarrow> (s'', fx @ fx')))"

text \<open>
  The alert is rendered under \<^verbatim>\<open>{error && (...)}\<close>: a \<^verbatim>\<open>null\<close> or empty error shows
  nothing.
\<close>

definition displayedError :: "collector_state \<Rightarrow> string option" where
  "displayedError s =
     (case error s of None \<Rightarrow> None | Some m \<Rightarrow> if m = [] then None else Some m)"

text \<open>The events by which the respond promise settles.\<close>

fun settles :: "event \<Rightarrow> bool" where
  "settles RespondResolved = True"
| "settles (RespondRejected e) = True"
| "settles ev = False"

subsection \<open>A concrete question set\<close>

text \<open>
  Two questions with one deadline of sixty seconds: a single-select question with options
  A and B, and a multi-select question with options X and Y. \<open>exampleAnswers\<close> is the
  answer set after choosing A, X and Y.
\<close>

abbreviation exampleQuestions :: "user_question list" where
  "exampleQuestions \<equiv>
     [\<lparr>question = ''Which one?'', header = None,
       options = [\<lparr>label = ''A'', description = None\<rparr>, \<lparr>label = ''B'', description = None\<rparr>],
       multiSelect = False\<rparr>,
      \<lparr>question = ''Which ones?'', header = Some ''Scope'',
       options = [\<lparr>label = ''X'', description = None\<rparr>, \<lparr>label = ''Y'', description = None\<rparr>],
       multiSelect = True\<rparr>]"

abbreviation exampleProps :: props where
  "exampleProps \<equiv>
     \<lparr>pendingStatus = \<lparr>questions = exampleQuestions, question_id = ''q-1'',
                       requested_at = 0, timeout_at = 60000\<rparr>,
      executionProcessId = Some ''proc-1''\<rparr>"

abbreviation exampleAnswers :: "question_answer list" where
  "exampleAnswers \<equiv>
     [\<lparr>question_index = 0, selected_options = [0], custom_text = None\<rparr>,
      \<lparr>question_index = 1, selected_options = [0, 1], custom_text = None\<rparr>]"

abbreviation exampleState :: "bool \<Rightarrow> bool \<Rightarrow> int \<Rightarrow> collector_state" where
  "exampleState responding responded left \<equiv>
     \<lparr>isResponding = responding, hasResponded = responded, error = None,
      answers = exampleAnswers, timeLeft = left, intervalActive = \<not> responded\<rparr>"

section \<open>Properties of the answer builder\<close>

subsection \<open>The default sort\<close>

lemma defaultSort_set: "set (defaultSort xs) = set xs"
  by (simp add: defaultSort_def)

lemma defaultSort_sorted: "sorted (map numberToString (defaultSort xs))"
  by (simp add: defaultSort_def)

lemma defaultSort_id: "sorted (map numberToString xs) \<Longrightarrow> defaultSort xs = xs"
  by (simp add: defaultSort_def sort_key_id_if_sorted)

lemma filter_defaultSort_snoc:
  "i \<notin> set xs \<Longrightarrow> filter (\<lambda>j. j \<noteq> i) (defaultSort (xs @ [i])) = defaultSort xs"
proof -
  assume "i \<notin> set xs"
  then have "filter (\<lambda>j. j \<noteq> i) (xs @ [i]) = xs"
    by (induction xs) auto
  then show ?thesis
    by (simp only: defaultSort_def filter_sort)
qed

subsection \<open>Multi-select: adding and removing an option\<close>

text \<open>
  What does hold of a multi-select \<^verbatim>\<open>handleOptionChange\<close>: checking adds the index to
  the set of selected indices, unchecking removes it, and indices stay unique when the
  index checked was not selected before.
\<close>

lemma multi_setOption_adds:
  "multiSelect q \<Longrightarrow>
     set (selected_options (handleOptionChange q a i True)) = insert i (set (selected_options a))"
  by (simp add: handleOptionChange_def defaultSort_set)

lemma multi_setOption_removes:
  "multiSelect q \<Longrightarrow>
     set (selected_options (handleOptionChange q a i False)) = set (selected_options a) - {i}"
  by (auto simp add: handleOptionChange_def)

lemma multi_setOption_distinct:
  "multiSelect q \<Longrightarrow> distinct (selected_options a) \<Longrightarrow> i \<notin> set (selected_options a) \<Longrightarrow>
     distinct (selected_options (handleOptionChange q a i True)) \<and>
     distinct (selected_options (handleOptionChange q a j False))"
  by (simp add: handleOptionChange_def defaultSort_def)

text \<open>
  Claim C4: for a multi-select question, \<open>setOption(index, true)\<close> adds the index and
  leaves \<open>selected_options\<close> sorted in ascending numeric order. The code sorts with
  \<^verbatim>\<open>.sort()\<close> and no comparator, which orders the indices as decimal strings: with option
  2 selected, checking option 10 of an eleven-option question yields \<open>[10, 2]\<close>, which is
  not ascending.
\<close>

theorem multi_setOption_sort_not_numeric:
  "selected_options
     (handleOptionChange
        \<lparr>question = ''Pick'', header = None,
         options = replicate 11 \<lparr>label = ''o'', description = None\<rparr>, multiSelect = True\<rparr>
        \<lparr>question_index = 0, selected_options = [2], custom_text = None\<rparr> 10 True)
     = [10, 2]
   \<and> \<not> sorted [10, 2 :: nat]"
  by code_simp

subsection \<open>Single-select\<close>

text \<open>
  Claim C6: for every single-select question and every prior answer, \<open>setOption(i, true)\<close>
  yields \<open>selected_options = [i]\<close> and an absent free text, and \<open>setOption(i, false)\<close>
  yields no selected option.
\<close>

theorem single_setOption:
  "\<not> multiSelect q \<Longrightarrow>
     selected_options (handleOptionChange q a i True) = [i] \<and>
     custom_text (handleOptionChange q a i True) = None \<and>
     selected_options (handleOptionChange q a i False) = []"
  by (cases "custom_text a") (simp_all add: handleOptionChange_def hasOtherSelected_def)

theorem single_setOption_witness:
  "\<not> multiSelect \<lparr>question = ''Which?'', header = None,
       options = [\<lparr>label = ''A'', description = None\<rparr>, \<lparr>label = ''B'', description = None\<rparr>],
       multiSelect = False\<rparr> \<and>
   selected_options (handleOptionChange
      \<lparr>question = ''Which?'', header = None,
       options = [\<lparr>label = ''A'', description = None\<rparr>, \<lparr>label = ''B'', description = None\<rparr>],
       multiSelect = False\<rparr>
      \<lparr>question_index = 0, selected_options = [0], custom_text = Some ''mine''\<rparr> 1 True) = [1] \<and>
   custom_text (handleOptionChange
      \<lparr>question = ''Which?'', header = None,
       options = [\<lparr>label = ''A'', description = None\<rparr>, \<lparr>label = ''B'', description = None\<rparr>],
       multiSelect = False\<rparr>
      \<lparr>question_index = 0, selected_options = [0], custom_text = Some ''mine''\<rparr> 1 True) = None"
  using single_setOption [of
      "\<lparr>question = ''Which?'', header = None,
        options = [\<lparr>label = ''A'', description = None\<rparr>, \<lparr>label = ''B'', description = None\<rparr>],
        multiSelect = False\<rparr>"
      "\<lparr>question_index = 0, selected_options = [0], custom_text = Some ''mine''\<rparr>" 1]
  by simp

subsection \<open>The "Other" toggle and its text\<close>

text \<open>
  Claim C7: \<open>setOther(true)\<close> sets the free text to the empty string, clears the selected
  options of a single-select question and keeps those of a multi-select question;
  \<open>setOther(false)\<close> makes the free text absent.
\<close>

theorem setOther_effect:
  "custom_text (handleOtherToggle q a True) = Some [] \<and>
   (\<not> multiSelect q \<longrightarrow> selected_options (handleOtherToggle q a True) = []) \<and>
   (multiSelect q \<longrightarrow> selected_options (handleOtherToggle q a True) = selected_options a) \<and>
   custom_text (handleOtherToggle q a False) = None"
  by (simp add: handleOtherToggle_def)

theorem setOther_effect_witness:
  "custom_text (handleOtherToggle
      \<lparr>question = ''Which?'', header = None, options = [], multiSelect = True\<rparr>
      \<lparr>question_index = 0, selected_options = [0, 2], custom_text = None\<rparr> True) = Some [] \<and>
   multiSelect \<lparr>question = ''Which?'', header = None, options = [], multiSelect = True\<rparr> \<and>
   selected_options (handleOtherToggle
      \<lparr>question = ''Which?'', header = None, options = [], multiSelect = True\<rparr>
      \<lparr>question_index = 0, selected_options = [0, 2], custom_text = None\<rparr> True) = [0, 2]"
  using setOther_effect [of
      "\<lparr>question = ''Which?'', header = None, options = [], multiSelect = True\<rparr>"
      "\<lparr>question_index = 0, selected_options = [0, 2], custom_text = None\<rparr>"]
  by simp

text \<open>
  Claim C10: \<open>setOtherText(text)\<close> and \<open>setOther(false)\<close> leave \<open>selected_options\<close> and
  \<open>question_index\<close> as they were, in both question modes; only \<open>custom_text\<close> changes.
\<close>

theorem other_text_frame:
  "selected_options (handleCustomTextChange a t) = selected_options a \<and>
   question_index (handleCustomTextChange a t) = question_index a \<and>
   selected_options (handleOtherToggle q a False) = selected_options a \<and>
   question_index (handleOtherToggle q a False) = question_index a \<and>
   handleCustomTextChange a t = a\<lparr>custom_text := custom_text (handleCustomTextChange a t)\<rparr> \<and>
   handleOtherToggle q a False = a\<lparr>custom_text := custom_text (handleOtherToggle q a False)\<rparr>"
  by (simp add: handleCustomTextChange_def handleOtherToggle_def)

section \<open>Properties of the countdown\<close>




subsection \<open>Rounding to a double\<close>





subsection \<open>The percent\<close>




lemma percent_tie_example: "percent 23 40 = 57"
  by code_simp



section \<open>Properties of the collector\<close>

subsection \<open>Blank text, the guard of submit, and what a success leaves behind\<close>

lemma trim_Nil_iff: "trim t = [] \<longleftrightarrow> (\<forall>c \<in> set t. isWhiteSpace c)"
proof
  assume "trim t = []"
  then have "dropWhile isWhiteSpace (rev (dropWhile isWhiteSpace t)) = []"
    by (simp add: trim_def)
  then have all: "\<forall>c \<in> set (dropWhile isWhiteSpace t). isWhiteSpace c"
    by simp
  have "dropWhile isWhiteSpace t = []"
  proof (rule ccontr)
    assume ne: "dropWhile isWhiteSpace t \<noteq> []"
    then have "\<not> isWhiteSpace (hd (dropWhile isWhiteSpace t))"
      by (rule hd_dropWhile)
    moreover have "hd (dropWhile isWhiteSpace t) \<in> set (dropWhile isWhiteSpace t)"
      using ne by simp
    ultimately show False using all by blast
  qed
  then show "\<forall>c \<in> set t. isWhiteSpace c"
    by simp
next
  assume "\<forall>c \<in> set t. isWhiteSpace c"
  then have "dropWhile isWhiteSpace t = []"
    by simp
  then show "trim t = []"
    unfolding trim_def by (simp only: rev.simps dropWhile.simps)
qed

lemma handleSubmit_calls:
  "list_ex isRespond (snd (handleSubmit p s)) \<longleftrightarrow>
     \<not> disabled s \<and> allQuestionsAnswered (answers s) \<and>
     (\<exists>pid. executionProcessId p = Some pid \<and> pid \<noteq> [])"
  by (auto simp add: handleSubmit_def split: option.splits)

lemma step_keeps_hasResponded: "hasResponded s \<Longrightarrow> hasResponded (fst (step p s ev))"
  by (cases ev)
     (auto simp add: step_def handleSubmit_def handleSubmit_resolved_def
        handleSubmit_rejected_def intervalCallback_def countdownEffect_def Let_def
        disabled_def split: option.splits)

lemma step_silent_after_success:
  "hasResponded s \<Longrightarrow> \<not> list_ex isRespond (snd (step p s ev))"
  by (cases ev)
     (auto simp add: step_def handleSubmit_def handleSubmit_resolved_def
        handleSubmit_rejected_def Let_def disabled_def split: option.splits)

lemma run_silent_after_success:
  "hasResponded s \<Longrightarrow> \<not> list_ex isRespond (snd (run p s evs))"
proof (induction evs arbitrary: s)
  case Nil
  then show ?case by simp
next
  case (Cons ev evs)
  obtain s' fx where st: "step p s ev = (s', fx)" by (cases "step p s ev")
  obtain s'' fx' where rn: "run p s' evs = (s'', fx')" by (cases "run p s' evs")
  have "hasResponded s'" using step_keeps_hasResponded [OF Cons.prems, of p ev] st by simp
  then have "\<not> list_ex isRespond fx'" using Cons.IH [of s'] rn by simp
  moreover have "\<not> list_ex isRespond fx"
    using step_silent_after_success [OF Cons.prems, of p ev] st by simp
  ultimately show ?case using st rn by simp
qed

lemma step_never_invalidates: "\<not> list_ex isInvalidation (snd (step p s ev))"
  by (cases ev)
     (auto simp add: step_def handleSubmit_def handleSubmit_resolved_def
        handleSubmit_rejected_def Let_def split: option.splits)

lemma run_never_invalidates: "\<not> list_ex isInvalidation (snd (run p s evs))"
proof (induction evs arbitrary: s)
  case Nil
  then show ?case by simp
next
  case (Cons ev evs)
  obtain s' fx where st: "step p s ev = (s', fx)" by (cases "step p s ev")
  obtain s'' fx' where rn: "run p s' evs = (s'', fx')" by (cases "run p s' evs")
  have "\<not> list_ex isInvalidation fx" using step_never_invalidates [of p s ev] st by simp
  moreover have "\<not> list_ex isInvalidation fx'" using Cons.IH [of s'] rn by simp
  ultimately show ?case using st rn by simp
qed

subsection \<open>When the respond call is made\<close>

text \<open>
  Claim C2: triggering submit makes the respond call only when every answer has a selected
  option or a free text that is not blank after trimming, the countdown is above zero, no
  submission is in flight and none has succeeded; otherwise nothing is called and nothing
  changes. A settled success sets \<open>hasResponded\<close>, and from a state with \<open>hasResponded\<close>
  no sequence of events makes the respond call again.
\<close>

theorem respond_only_when_allowed:
  "(list_ex isRespond (snd (step p s SubmitClick)) \<longrightarrow>
      list_all (\<lambda>a. selected_options a \<noteq> [] \<or> (\<exists>t. custom_text a = Some t \<and> trim t \<noteq> []))
        (answers s) \<and>
      0 < timeLeft s \<and> \<not> isResponding s \<and> \<not> hasResponded s) \<and>
   (\<not> (list_all (\<lambda>a. selected_options a \<noteq> [] \<or> (\<exists>t. custom_text a = Some t \<and> trim t \<noteq> []))
         (answers s) \<and>
       0 < timeLeft s \<and> \<not> isResponding s \<and> \<not> hasResponded s) \<longrightarrow>
      step p s SubmitClick = (s, [])) \<and>
   (isResponding s \<longrightarrow> hasResponded (fst (step p s RespondResolved))) \<and>
   (hasResponded s \<longrightarrow> \<not> list_ex isRespond (snd (run p s evs)))"
proof -
  have answered_eq:
    "allQuestionsAnswered (answers s) =
       list_all (\<lambda>a. selected_options a \<noteq> [] \<or> (\<exists>t. custom_text a = Some t \<and> trim t \<noteq> []))
         (answers s)"
    unfolding allQuestionsAnswered_def
    by (rule arg_cong [where f = "\<lambda>P. list_all P (answers s)"])
       (auto simp add: answered_def fun_eq_iff split: option.splits)
  have guard: "list_ex isRespond (snd (step p s SubmitClick)) \<Longrightarrow>
      allQuestionsAnswered (answers s) \<and> 0 < timeLeft s \<and> \<not> isResponding s \<and> \<not> hasResponded s"
    using handleSubmit_calls [of p s] by (auto simp add: step_def disabled_def)
  have blocked: "\<not> (allQuestionsAnswered (answers s) \<and> 0 < timeLeft s \<and> \<not> isResponding s \<and>
      \<not> hasResponded s) \<Longrightarrow> step p s SubmitClick = (s, [])"
    by (auto simp add: step_def handleSubmit_def disabled_def)
  have success: "isResponding s \<Longrightarrow> hasResponded (fst (step p s RespondResolved))"
    by (simp add: step_def handleSubmit_resolved_def countdownEffect_def)
  show ?thesis
    using guard blocked success run_silent_after_success [of s p evs]
    unfolding answered_eq by blast
qed

theorem respond_only_when_allowed_witness:
  "list_ex isRespond (snd (step exampleProps (exampleState False False 30) SubmitClick)) \<and>
   0 < timeLeft (exampleState False False 30) \<and>
   step exampleProps (exampleState False False 0) SubmitClick = (exampleState False False 0, []) \<and>
   step exampleProps (exampleState True False 30) SubmitClick = (exampleState True False 30, []) \<and>
   hasResponded (fst (step exampleProps (exampleState True False 30) RespondResolved)) \<and>
   \<not> list_ex isRespond
       (snd (run exampleProps (exampleState False True 30)
          [SubmitClick, OptionChange 1 0 False, Tick 31000, SubmitClick]))"
proof -
  have call: "list_ex isRespond (snd (step exampleProps (exampleState False False 30) SubmitClick))"
    by code_simp
  have c1: "0 < timeLeft (exampleState False False 30)"
    using respond_only_when_allowed [of exampleProps "exampleState False False 30" "[]"] call
    by blast
  have c2: "step exampleProps (exampleState False False 0) SubmitClick
              = (exampleState False False 0, [])"
    using respond_only_when_allowed [of exampleProps "exampleState False False 0" "[]"]
    by simp
  have c3: "step exampleProps (exampleState True False 30) SubmitClick
              = (exampleState True False 30, [])"
    using respond_only_when_allowed [of exampleProps "exampleState True False 30" "[]"]
    by simp
  have c4: "hasResponded (fst (step exampleProps (exampleState True False 30) RespondResolved))"
    using respond_only_when_allowed [of exampleProps "exampleState True False 30" "[]"]
    by simp
  have c5: "\<not> list_ex isRespond
       (snd (run exampleProps (exampleState False True 30)
          [SubmitClick, OptionChange 1 0 False, Tick 31000, SubmitClick]))"
  proof -
    have responded: "hasResponded (exampleState False True 30)" by simp
    show ?thesis
      using respond_only_when_allowed [of exampleProps "exampleState False True 30"
          "[SubmitClick, OptionChange 1 0 False, Tick 31000, SubmitClick]"] responded
      by blast
  qed
  show ?thesis using call c1 c2 c3 c4 c5 by blast
qed

subsection \<open>A rejected respond call\<close>

text \<open>
  While the call is in flight the controls are disabled and submit is blocked, so only the
  interval changes the state: it keeps counting down.
\<close>

lemma step_in_flight:
  assumes "isResponding s" and "\<not> settles ev"
  shows "isResponding (fst (step p s ev)) \<and>
         hasResponded (fst (step p s ev)) = hasResponded s \<and>
         answers (fst (step p s ev)) = answers s \<and>
         error (fst (step p s ev)) = error s \<and>
         snd (step p s ev) = []"
  using assms
  by (cases ev)
     (simp_all add: step_def disabled_def handleSubmit_def intervalCallback_def Let_def)

lemma run_in_flight:
  assumes "isResponding s" and "list_all (\<lambda>ev. \<not> settles ev) evs"
  shows "isResponding (fst (run p s evs)) \<and>
         hasResponded (fst (run p s evs)) = hasResponded s \<and>
         answers (fst (run p s evs)) = answers s \<and>
         error (fst (run p s evs)) = error s \<and>
         snd (run p s evs) = []"
  using assms
proof (induction evs arbitrary: s)
  case Nil
  then show ?case by simp
next
  case (Cons ev evs)
  obtain s' fx where st: "step p s ev = (s', fx)" by (cases "step p s ev")
  obtain s'' fx' where rn: "run p s' evs = (s'', fx')" by (cases "run p s' evs")
  from Cons.prems have ns: "\<not> settles ev" and rest: "list_all (\<lambda>ev. \<not> settles ev) evs"
    by simp_all
  have one: "isResponding s' \<and> hasResponded s' = hasResponded s \<and> answers s' = answers s \<and>
      error s' = error s \<and> fx = []"
    using step_in_flight [OF Cons.prems(1) ns, of p] st by simp
  then have "isResponding s'' \<and> hasResponded s'' = hasResponded s' \<and> answers s'' = answers s' \<and>
      error s'' = error s' \<and> fx' = []"
    using Cons.IH [OF _ rest, of s'] rn by simp
  with one show ?case using st rn by simp
qed

text \<open>
  Claim C3 says that after a rejected respond call the error shown is the failure's
  message, or the generic message when the failure carries none, and that a second submit
  is possible and not blocked. As stated it fails. With one second left, the answers A, X
  and Y are submitted; the interval reaches zero while the call is in flight; the call
  then rejects with "network error": the answers are still all answered, but the second
  submit makes no call. And a failure that is an \<^verbatim>\<open>Error\<close> with an empty message leaves
  the empty string as the error, not the generic message, and nothing is displayed.
\<close>

theorem late_reject_blocks_retry_counterexample:
  "snd (run exampleProps (initialState exampleProps 58500)
      [OptionChange 0 0 True, OptionChange 1 0 True, OptionChange 1 1 True,
       SubmitClick, Tick 60000, RespondRejected (ErrorInstance ''network error'')])
     = [Respond ''q-1'' \<lparr>execution_process_id = ''proc-1'', response_answers = exampleAnswers\<rparr>,
        ConsoleError ''Question respond failed:'' (ErrorInstance ''network error'')] \<and>
   fst (run exampleProps (initialState exampleProps 58500)
      [OptionChange 0 0 True, OptionChange 1 0 True, OptionChange 1 1 True,
       SubmitClick, Tick 60000, RespondRejected (ErrorInstance ''network error'')])
     = \<lparr>isResponding = False, hasResponded = False, error = Some ''network error'',
        answers = exampleAnswers, timeLeft = 0, intervalActive = False\<rparr> \<and>
   step exampleProps
      \<lparr>isResponding = False, hasResponded = False, error = Some ''network error'',
       answers = exampleAnswers, timeLeft = 0, intervalActive = False\<rparr> SubmitClick
     = (\<lparr>isResponding = False, hasResponded = False, error = Some ''network error'',
         answers = exampleAnswers, timeLeft = 0, intervalActive = False\<rparr>, []) \<and>
   error (fst (step exampleProps (exampleState True False 30) (RespondRejected (ErrorInstance ''''))))
     = Some '''' \<and>
   displayedError (fst (step exampleProps (exampleState True False 30)
      (RespondRejected (ErrorInstance '''')))) = None"
  by code_simp

text \<open>
  Claim C3, amended: when the respond call rejects, whatever the interval did while the
  call was in flight, the error is the \<^verbatim>\<open>message\<close> of the failure when the failure
  is an \<^verbatim>\<open>Error\<close> instance (displayed unless it is empty) and the generic
  \<open>Failed to send response\<close> for any other rejected value; the answers are unchanged and
  still all answered, nothing is in flight and nothing has succeeded; a second submit makes
  the same respond call again when the countdown is still above zero, and is blocked when
  the countdown has reached zero.
\<close>

theorem reject_reverts_to_answering:
  assumes "step p s SubmitClick = (s1, fx1)" and "list_ex isRespond fx1"
    and "list_all (\<lambda>ev. \<not> settles ev) evs" and "run p s1 evs = (s1', fxs)"
    and "step p s1' (RespondRejected e) = (s2, fx2)"
  shows "(\<forall>m. e = ErrorInstance m \<longrightarrow>
            error s2 = Some m \<and> displayedError s2 = (if m = [] then None else Some m)) \<and>
         (e = NonError \<longrightarrow>
            error s2 = Some ''Failed to send response'' \<and>
            displayedError s2 = Some ''Failed to send response'') \<and>
         answers s2 = answers s \<and> allQuestionsAnswered (answers s2) \<and>
         \<not> isResponding s2 \<and> \<not> hasResponded s2 \<and> fxs = [] \<and>
         (0 < timeLeft s2 \<longrightarrow> \<not> disabled s2 \<and> snd (step p s2 SubmitClick) = fx1) \<and>
         (timeLeft s2 \<le> 0 \<longrightarrow> step p s2 SubmitClick = (s2, []))"
proof -
  from assms(1,2) have call: "list_ex isRespond (snd (handleSubmit p s))"
    by (simp add: step_def)
  then obtain pid where g: "\<not> disabled s" "allQuestionsAnswered (answers s)"
      "executionProcessId p = Some pid" "pid \<noteq> []"
    using handleSubmit_calls [of p s] by blast
  let ?r = "Respond (question_id (pendingStatus p))
              \<lparr>execution_process_id = pid, response_answers = answers s\<rparr>"
  from g assms(1) have s1: "s1 = s\<lparr>isResponding := True, error := None\<rparr>" and fx1: "fx1 = [?r]"
    by (simp_all add: step_def handleSubmit_def)
  from g have nd: "\<not> isResponding s" "\<not> hasResponded s"
    by (simp_all add: disabled_def)
  have fl1: "isResponding s1" by (simp add: s1)
  have mid: "isResponding s1' \<and> hasResponded s1' = hasResponded s1 \<and> answers s1' = answers s1 \<and>
      error s1' = error s1 \<and> fxs = []"
    using run_in_flight [OF fl1 assms(3), of p] assms(4) by simp
  from assms(5) mid have s2:
    "s2 = s1'\<lparr>error := Some (case e of ErrorInstance m \<Rightarrow> m
                                      | NonError \<Rightarrow> ''Failed to send response''),
             isResponding := False\<rparr>"
    by (simp add: step_def handleSubmit_rejected_def)
  have flags: "answers s2 = answers s" "\<not> isResponding s2" "\<not> hasResponded s2"
    using mid nd by (simp_all add: s2 s1)
  have msgs: "(\<forall>m. e = ErrorInstance m \<longrightarrow>
            error s2 = Some m \<and> displayedError s2 = (if m = [] then None else Some m)) \<and>
         (e = NonError \<longrightarrow>
            error s2 = Some ''Failed to send response'' \<and>
            displayedError s2 = Some ''Failed to send response'')"
    by (simp add: s2 displayedError_def)
  have again: "0 < timeLeft s2 \<Longrightarrow> \<not> disabled s2 \<and> snd (step p s2 SubmitClick) = fx1"
    using g flags by (simp add: fx1 step_def handleSubmit_def disabled_def)
  have blocked: "timeLeft s2 \<le> 0 \<Longrightarrow> step p s2 SubmitClick = (s2, [])"
    by (simp add: step_def handleSubmit_def disabled_def)
  show ?thesis
    using msgs flags g(2) mid again blocked by simp
qed

theorem reject_reverts_to_answering_witness:
  "step exampleProps (exampleState False False 30) SubmitClick =
     (exampleState True False 30,
      [Respond ''q-1'' \<lparr>execution_process_id = ''proc-1'', response_answers = exampleAnswers\<rparr>]) \<and>
   run exampleProps (exampleState True False 30) [Tick 31000, SubmitClick] =
     (exampleState True False 29, []) \<and>
   step exampleProps (exampleState True False 29) (RespondRejected (ErrorInstance ''network error'')) =
     ((exampleState False False 29)\<lparr>error := Some ''network error''\<rparr>,
      [ConsoleError ''Question respond failed:'' (ErrorInstance ''network error'')]) \<and>
   displayedError ((exampleState False False 29)\<lparr>error := Some ''network error''\<rparr>)
     = Some ''network error'' \<and>
   allQuestionsAnswered (answers ((exampleState False False 29)\<lparr>error := Some ''network error''\<rparr>)) \<and>
   snd (step exampleProps ((exampleState False False 29)\<lparr>error := Some ''network error''\<rparr>) SubmitClick) =
     [Respond ''q-1'' \<lparr>execution_process_id = ''proc-1'', response_answers = exampleAnswers\<rparr>] \<and>
   run exampleProps (exampleState True False 30) [Tick 60000] =
     ((exampleState True False 0)\<lparr>intervalActive := False\<rparr>, []) \<and>
   step exampleProps ((exampleState True False 0)\<lparr>intervalActive := False\<rparr>) (RespondRejected NonError) =
     ((exampleState False False 0)\<lparr>intervalActive := False, error := Some ''Failed to send response''\<rparr>,
      [ConsoleError ''Question respond failed:'' NonError]) \<and>
   step exampleProps
      ((exampleState False False 0)\<lparr>intervalActive := False, error := Some ''Failed to send response''\<rparr>)
      SubmitClick =
     ((exampleState False False 0)\<lparr>intervalActive := False, error := Some ''Failed to send response''\<rparr>, [])"
proof -
  let ?r = "Respond ''q-1'' \<lparr>execution_process_id = ''proc-1'', response_answers = exampleAnswers\<rparr>"
  let ?e = "ErrorInstance ''network error''"
  let ?s2 = "(exampleState False False 29)\<lparr>error := Some ''network error''\<rparr>"
  let ?t1 = "(exampleState True False 0)\<lparr>intervalActive := False\<rparr>"
  let ?t2 = "(exampleState False False 0)\<lparr>intervalActive := False, error := Some ''Failed to send response''\<rparr>"
  have h1: "step exampleProps (exampleState False False 30) SubmitClick
      = (exampleState True False 30, [?r])"
    by code_simp
  have h2: "list_ex isRespond [?r]" by simp
  have h3: "list_all (\<lambda>ev. \<not> settles ev) [Tick 31000, SubmitClick]" by simp
  have h4: "run exampleProps (exampleState True False 30) [Tick 31000, SubmitClick]
      = (exampleState True False 29, [])"
    by code_simp
  have h5: "step exampleProps (exampleState True False 29) (RespondRejected ?e)
      = (?s2, [ConsoleError ''Question respond failed:'' ?e])"
    by code_simp
  have pos: "0 < timeLeft ?s2" by simp
  note a = reject_reverts_to_answering [OF h1 h2 h3 h4 h5]
  have c1: "displayedError ?s2 = Some ''network error''" using a by simp
  have c2: "allQuestionsAnswered (answers ?s2)" using a by blast
  have c3: "snd (step exampleProps ?s2 SubmitClick) = [?r]" using a pos by blast
  have k3: "list_all (\<lambda>ev. \<not> settles ev) [Tick 60000]" by simp
  have k4: "run exampleProps (exampleState True False 30) [Tick 60000] = (?t1, [])"
    by code_simp
  have k5: "step exampleProps ?t1 (RespondRejected NonError)
      = (?t2, [ConsoleError ''Question respond failed:'' NonError])"
    by code_simp
  have zero: "timeLeft ?t2 \<le> 0" by simp
  note b = reject_reverts_to_answering [OF h1 h2 k3 k4 k5]
  have c4: "step exampleProps ?t2 SubmitClick = (?t2, [])" using b zero by blast
  show ?thesis using h1 h4 h5 c1 c2 c3 k4 k5 c4 by blast
qed

subsection \<open>A successful respond call\<close>

text \<open>
  Claim C1 says that every successful submission is accompanied by an invalidation of an
  external cache. As stated it fails: the submission of the example answers succeeds, the
  only effect is the respond call, and no invalidation is issued.
\<close>

theorem success_without_invalidation_counterexample:
  "hasResponded (fst (run exampleProps (exampleState False False 30)
      [SubmitClick, RespondResolved])) \<and>
   snd (run exampleProps (exampleState False False 30) [SubmitClick, RespondResolved]) =
     [Respond ''q-1'' \<lparr>execution_process_id = ''proc-1'', response_answers = exampleAnswers\<rparr>] \<and>
   \<not> list_ex isInvalidation
       (snd (run exampleProps (exampleState False False 30) [SubmitClick, RespondResolved]))"
  by code_simp

text \<open>
  Claim C1, amended: on a successful submission the collector records the success
  (\<open>hasResponded\<close> set, in-flight flag cleared, interval removed), which disables its
  controls; the only outbound effect of a submission is the single respond call with the
  current answers; and the collector never issues a cache invalidation, whatever the
  sequence of events.
\<close>

theorem success_effects:
  "(isResponding s \<longrightarrow>
      step p s RespondResolved =
        (s\<lparr>hasResponded := True, isResponding := False, intervalActive := False\<rparr>, []) \<and>
      disabled (fst (step p s RespondResolved))) \<and>
   (list_ex isRespond (snd (step p s SubmitClick)) \<longrightarrow>
      (\<exists>pid. executionProcessId p = Some pid \<and>
         snd (step p s SubmitClick) =
           [Respond (question_id (pendingStatus p))
              \<lparr>execution_process_id = pid, response_answers = answers s\<rparr>])) \<and>
   \<not> list_ex isInvalidation (snd (run p s evs))"
proof -
  have a: "isResponding s \<Longrightarrow>
      step p s RespondResolved =
        (s\<lparr>hasResponded := True, isResponding := False, intervalActive := False\<rparr>, []) \<and>
      disabled (fst (step p s RespondResolved))"
    by (simp add: step_def handleSubmit_resolved_def countdownEffect_def disabled_def)
  have b: "list_ex isRespond (snd (step p s SubmitClick)) \<Longrightarrow>
      (\<exists>pid. executionProcessId p = Some pid \<and>
         snd (step p s SubmitClick) =
           [Respond (question_id (pendingStatus p))
              \<lparr>execution_process_id = pid, response_answers = answers s\<rparr>])"
    by (auto simp add: step_def handleSubmit_def split: option.splits if_splits)
  show ?thesis using a b run_never_invalidates [of p s evs] by blast
qed

theorem success_effects_witness:
  "isResponding (exampleState True False 30) \<and>
   step exampleProps (exampleState True False 30) RespondResolved = (exampleState False True 30, []) \<and>
   \<not> list_ex isInvalidation
       (snd (run exampleProps (exampleState False False 30) [SubmitClick, RespondResolved]))"
proof -
  have h: "isResponding (exampleState True False 30)" by simp
  have "step exampleProps (exampleState True False 30) RespondResolved =
        ((exampleState True False 30)
           \<lparr>hasResponded := True, isResponding := False, intervalActive := False\<rparr>, [])"
    using success_effects [of "exampleState True False 30" exampleProps "[]"] h by blast
  then have c1: "step exampleProps (exampleState True False 30) RespondResolved =
      (exampleState False True 30, [])"
    by simp
  have c2: "\<not> list_ex isInvalidation
       (snd (run exampleProps (exampleState False False 30) [SubmitClick, RespondResolved]))"
    using success_effects [of "exampleState False False 30" exampleProps
        "[SubmitClick, RespondResolved]"] by blast
  show ?thesis using h c1 c2 by blast
qed

section \<open>The answer builder inside the component\<close>

subsection \<open>Editing the text of "Other"\<close>

text \<open>
  Claim C8: \<open>setOtherText(text)\<close> is the change event of the text field of "Other" of a
  question. When "Other" is not active for that question the field is not rendered, the
  event is not offered, and the state (so the answer) is unchanged; the event is offered
  exactly when the question exists, the controls are enabled and "Other" is active, and
  then it sets the free text of that answer to \<open>text\<close> and changes nothing else.
\<close>

theorem setOtherText_effect:
  "(q < length (answers s) \<and> \<not> hasOtherSelected (answers s ! q) \<longrightarrow>
      step p s (CustomTextChange q t) = (s, [])) \<and>
   (offered p s (CustomTextChange q t) \<longrightarrow>
      hasOtherSelected (answers s ! q) \<and>
      step p s (CustomTextChange q t) =
        (s\<lparr>answers := (answers s)[q := (answers s ! q)\<lparr>custom_text := Some t\<rparr>]\<rparr>, [])) \<and>
   (q < length (questions (pendingStatus p)) \<and> q < length (answers s) \<and> \<not> disabled s \<and>
    hasOtherSelected (answers s ! q) \<longrightarrow> offered p s (CustomTextChange q t)) \<and>
   (hasOtherSelected a \<longrightarrow> handleCustomTextChange a t = a\<lparr>custom_text := Some t\<rparr>)"
  by (simp add: handleCustomTextChange_def otherInputRendered_def step_def
      handleAnswerChange_def)

theorem setOtherText_effect_witness:
  "hasOtherSelected \<lparr>question_index = 0, selected_options = [], custom_text = Some ''''\<rparr> \<and>
   handleCustomTextChange \<lparr>question_index = 0, selected_options = [], custom_text = Some ''''\<rparr> ''hello''
     = \<lparr>question_index = 0, selected_options = [], custom_text = Some ''hello''\<rparr> \<and>
   \<not> hasOtherSelected (answers (exampleState False False 30) ! 0) \<and>
   step exampleProps (exampleState False False 30) (CustomTextChange 0 ''hello'')
     = (exampleState False False 30, []) \<and>
   offered exampleProps
     ((exampleState False False 30)\<lparr>answers :=
        [\<lparr>question_index = 0, selected_options = [], custom_text = Some ''''\<rparr>,
         \<lparr>question_index = 1, selected_options = [0, 1], custom_text = None\<rparr>]\<rparr>)
     (CustomTextChange 0 ''hello'') \<and>
   answers (fst (step exampleProps
     ((exampleState False False 30)\<lparr>answers :=
        [\<lparr>question_index = 0, selected_options = [], custom_text = Some ''''\<rparr>,
         \<lparr>question_index = 1, selected_options = [0, 1], custom_text = None\<rparr>]\<rparr>)
     (CustomTextChange 0 ''hello'')))
     = [\<lparr>question_index = 0, selected_options = [], custom_text = Some ''hello''\<rparr>,
        \<lparr>question_index = 1, selected_options = [0, 1], custom_text = None\<rparr>]"
proof -
  let ?a = "\<lparr>question_index = 0, selected_options = [], custom_text = Some ''''\<rparr>"
  let ?s = "(exampleState False False 30)\<lparr>answers :=
        [\<lparr>question_index = 0, selected_options = [], custom_text = Some ''''\<rparr>,
         \<lparr>question_index = 1, selected_options = [0, 1], custom_text = None\<rparr>]\<rparr>"
  have h1: "hasOtherSelected ?a" by (simp add: hasOtherSelected_def)
  have c1: "handleCustomTextChange ?a ''hello''
      = \<lparr>question_index = 0, selected_options = [], custom_text = Some ''hello''\<rparr>"
    using setOtherText_effect [where a = ?a and t = "''hello''" and q = 0
        and s = "exampleState False False 30" and p = exampleProps] h1
    by simp
  have h2: "\<not> hasOtherSelected (answers (exampleState False False 30) ! 0)"
    by (simp add: hasOtherSelected_def)
  have c2: "step exampleProps (exampleState False False 30) (CustomTextChange 0 ''hello'')
      = (exampleState False False 30, [])"
    using setOtherText_effect [where a = ?a and t = "''hello''" and q = 0
        and s = "exampleState False False 30" and p = exampleProps] h2
    by simp
  have h3: "0 < length (questions (pendingStatus exampleProps)) \<and> 0 < length (answers ?s) \<and>
      \<not> disabled ?s \<and> hasOtherSelected (answers ?s ! 0)"
    by (simp add: hasOtherSelected_def disabled_def)
  have c3: "offered exampleProps ?s (CustomTextChange 0 ''hello'')"
    using setOtherText_effect [where a = ?a and t = "''hello''" and q = 0
        and s = ?s and p = exampleProps] h3
    by blast
  have c4: "answers (fst (step exampleProps ?s (CustomTextChange 0 ''hello'')))
     = [\<lparr>question_index = 0, selected_options = [], custom_text = Some ''hello''\<rparr>,
        \<lparr>question_index = 1, selected_options = [0, 1], custom_text = None\<rparr>]"
    using setOtherText_effect [where a = ?a and t = "''hello''" and q = 0
        and s = ?s and p = exampleProps] c3
    by simp
  show ?thesis using h1 c1 h2 c2 c3 c4 by blast
qed

subsection \<open>The order of the selected options\<close>

text \<open>
  Every answer that the component builds from its initial, empty answers has its selected
  options in the order in which the handler's sort leaves them.
\<close>

lemma handleOptionChange_keeps_order:
  "sorted (map numberToString (selected_options a)) \<Longrightarrow>
     sorted (map numberToString (selected_options (handleOptionChange q a i c)))"
  by (simp add: handleOptionChange_def defaultSort_sorted sorted_filter)

lemma list_all_update:
  "list_all P xs \<Longrightarrow> P a \<Longrightarrow> list_all P (xs[i := a])"
  using set_update_subset_insert [of xs i a] by (auto simp add: list_all_iff)

lemma step_keeps_order:
  assumes "list_all (\<lambda>a. sorted (map numberToString (selected_options a))) (answers s)"
  shows "list_all (\<lambda>a. sorted (map numberToString (selected_options a)))
           (answers (fst (step p s ev)))"
proof (cases "offered p s ev")
  case False
  then show ?thesis using assms by (simp add: step_def)
next
  case True
  show ?thesis
  proof (cases ev)
    case (OptionChange q i c)
    with True have "q < length (answers s)" by simp
    with assms have "sorted (map numberToString (selected_options (answers s ! q)))"
      by (simp add: list_all_length)
    then show ?thesis
      using assms True OptionChange
      by (simp add: step_def handleAnswerChange_def list_all_update
          handleOptionChange_keeps_order)
  next
    case (OtherToggle q c)
    with True have "q < length (answers s)" by simp
    with assms have "sorted (map numberToString (selected_options (answers s ! q)))"
      by (simp add: list_all_length)
    then show ?thesis
      using assms True OtherToggle
      by (simp add: step_def handleAnswerChange_def list_all_update handleOtherToggle_def)
  next
    case (CustomTextChange q t)
    with True have "q < length (answers s)" by simp
    with assms have "sorted (map numberToString (selected_options (answers s ! q)))"
      by (simp add: list_all_length)
    then show ?thesis
      using assms True CustomTextChange
      by (simp add: step_def handleAnswerChange_def list_all_update handleCustomTextChange_def)
  next
    case (Tick now)
    then show ?thesis using assms by (simp add: step_def intervalCallback_def Let_def)
  next
    case SubmitClick
    then show ?thesis
      using assms by (auto simp add: step_def handleSubmit_def split: option.splits)
  next
    case RespondResolved
    then show ?thesis
      using assms by (simp add: step_def handleSubmit_resolved_def countdownEffect_def)
  next
    case (RespondRejected e)
    then show ?thesis
      using assms by (simp add: step_def handleSubmit_rejected_def Let_def)
  qed
qed

lemma run_keeps_order:
  "list_all (\<lambda>a. sorted (map numberToString (selected_options a))) (answers s) \<Longrightarrow>
     list_all (\<lambda>a. sorted (map numberToString (selected_options a)))
       (answers (fst (run p s evs)))"
proof (induction evs arbitrary: s)
  case Nil
  then show ?case by simp
next
  case (Cons ev evs)
  obtain s' fx where st: "step p s ev = (s', fx)" by (cases "step p s ev")
  obtain s'' fx' where rn: "run p s' evs = (s'', fx')" by (cases "run p s' evs")
  have "list_all (\<lambda>a. sorted (map numberToString (selected_options a))) (answers s')"
    using step_keeps_order [OF Cons.prems, of p ev] st by simp
  then have "list_all (\<lambda>a. sorted (map numberToString (selected_options a))) (answers s'')"
    using Cons.IH [of s'] rn by simp
  then show ?case using st rn by simp
qed

lemma reachable_answers_ordered:
  "list_all (\<lambda>a. sorted (map numberToString (selected_options a)))
     (answers (fst (run p (initialState p now) evs)))"
  by (rule run_keeps_order) (simp add: initialState_def initialAnswers_def list_all_iff)

lemma toggle_twice_ordered:
  assumes "multiSelect q" and "i \<notin> set (selected_options a)"
    and "sorted (map numberToString (selected_options a))"
  shows "handleOptionChange q (handleOptionChange q a i True) i False = a"
  using assms
  by (simp add: handleOptionChange_def filter_defaultSort_snoc defaultSort_id)

text \<open>
  Claim C5: for every multi-select question and every answer the component holds (any
  state reached from the initial one) in which option \<open>i\<close> is not selected,
  \<open>setOption(i, true)\<close> followed by \<open>setOption(i, false)\<close> returns \<open>selected_options\<close>
  to exactly its original value, and the whole answer with it; as two events on the form
  of question \<open>k\<close> they leave the answer set as it was.
\<close>

theorem toggle_twice_restores:
  assumes "s = fst (run p (initialState p now) evs)"
    and "k < length (answers s)"
    and "multiSelect q"
    and "i \<notin> set (selected_options (answers s ! k))"
  shows
    "selected_options (handleOptionChange q (handleOptionChange q (answers s ! k) i True) i False)
       = selected_options (answers s ! k) \<and>
     handleOptionChange q (handleOptionChange q (answers s ! k) i True) i False = answers s ! k \<and>
     (q = questions (pendingStatus p) ! k \<and> offered p s (OptionChange k i True) \<longrightarrow>
        answers (fst (run p s [OptionChange k i True, OptionChange k i False])) = answers s)"
proof -
  let ?a = "answers s ! k"
  have ord: "sorted (map numberToString (selected_options ?a))"
    using reachable_answers_ordered [of p now evs] assms(1,2) by (simp add: list_all_length)
  have restored: "handleOptionChange q (handleOptionChange q ?a i True) i False = ?a"
    by (rule toggle_twice_ordered [OF assms(3,4) ord])
  have comp: "answers (fst (run p s [OptionChange k i True, OptionChange k i False])) = answers s"
    if q: "q = questions (pendingStatus p) ! k" and off: "offered p s (OptionChange k i True)"
  proof -
    let ?s1 = "s\<lparr>answers := (answers s)[k := handleOptionChange q ?a i True]\<rparr>"
    have st1: "step p s (OptionChange k i True) = (?s1, [])"
      using off q by (simp add: step_def handleAnswerChange_def)
    have off2: "offered p ?s1 (OptionChange k i False)"
      using off q assms(3) by (simp add: disabled_def)
    have st2: "step p ?s1 (OptionChange k i False)
        = (?s1\<lparr>answers := (answers ?s1)[k := handleOptionChange q (answers ?s1 ! k) i False]\<rparr>, [])"
      using off2 q by (simp add: step_def handleAnswerChange_def)
    have "answers (fst (run p s [OptionChange k i True, OptionChange k i False]))
        = (answers s)[k := handleOptionChange q (handleOptionChange q ?a i True) i False]"
      using assms(2) by (simp add: st1 st2)
    then show ?thesis by (simp add: restored)
  qed
  show ?thesis using restored comp by simp
qed

theorem toggle_twice_restores_witness:
  "\<lparr>isResponding = False, hasResponded = False, error = None,
     answers = [\<lparr>question_index = 0, selected_options = [], custom_text = None\<rparr>,
                \<lparr>question_index = 1, selected_options = [1], custom_text = None\<rparr>],
     timeLeft = 30, intervalActive = True\<rparr>
     = fst (run exampleProps (initialState exampleProps 30000) [OptionChange 1 1 True]) \<and>
   0 \<notin> set (selected_options \<lparr>question_index = 1, selected_options = [1], custom_text = None\<rparr>) \<and>
   handleOptionChange (exampleQuestions ! 1)
     (handleOptionChange (exampleQuestions ! 1)
        \<lparr>question_index = 1, selected_options = [1], custom_text = None\<rparr> 0 True) 0 False
     = \<lparr>question_index = 1, selected_options = [1], custom_text = None\<rparr> \<and>
   answers (fst (run exampleProps
       \<lparr>isResponding = False, hasResponded = False, error = None,
        answers = [\<lparr>question_index = 0, selected_options = [], custom_text = None\<rparr>,
                   \<lparr>question_index = 1, selected_options = [1], custom_text = None\<rparr>],
        timeLeft = 30, intervalActive = True\<rparr>
       [OptionChange 1 0 True, OptionChange 1 0 False]))
     = [\<lparr>question_index = 0, selected_options = [], custom_text = None\<rparr>,
        \<lparr>question_index = 1, selected_options = [1], custom_text = None\<rparr>]"
proof -
  let ?s = "\<lparr>isResponding = False, hasResponded = False, error = None,
     answers = [\<lparr>question_index = 0, selected_options = [], custom_text = None\<rparr>,
                \<lparr>question_index = 1, selected_options = [1], custom_text = None\<rparr>],
     timeLeft = 30, intervalActive = True\<rparr>"
  have h1: "?s = fst (run exampleProps (initialState exampleProps 30000) [OptionChange 1 1 True])"
    by code_simp
  have h2: "1 < length (answers ?s)" by simp
  have h3: "multiSelect (exampleQuestions ! 1)" by simp
  have h4: "0 \<notin> set (selected_options (answers ?s ! 1))" by simp
  have h5: "exampleQuestions ! 1 = questions (pendingStatus exampleProps) ! 1" by simp
  have h6: "offered exampleProps ?s (OptionChange 1 0 True)" by (simp add: disabled_def)
  note a = toggle_twice_restores [OF h1 h2 h3 h4]
  have c1: "handleOptionChange (exampleQuestions ! 1)
     (handleOptionChange (exampleQuestions ! 1)
        \<lparr>question_index = 1, selected_options = [1], custom_text = None\<rparr> 0 True) 0 False
     = \<lparr>question_index = 1, selected_options = [1], custom_text = None\<rparr>"
    using a by simp
  have "answers (fst (run exampleProps ?s [OptionChange 1 0 True, OptionChange 1 0 False]))
     = answers ?s"
    using a h5 h6 by blast
  then have c2: "answers (fst (run exampleProps ?s [OptionChange 1 0 True, OptionChange 1 0 False]))
     = [\<lparr>question_index = 0, selected_options = [], custom_text = None\<rparr>,
        \<lparr>question_index = 1, selected_options = [1], custom_text = None\<rparr>]"
    by simp
  have h4': "0 \<notin> set (selected_options \<lparr>question_index = 1, selected_options = [1], custom_text = None\<rparr>)"
    by simp
  show ?thesis using h1 h4' c1 c2 by blast
qed

end
